theory Spec2Isabelle
  imports Complex_Main "HOL-Library.Multiset"
begin

section \<open>Data model of the CURE engine (clustering/cure.py)\<close>

text \<open>
  A point is a Python list of numbers. Numbers are modelled as exact reals; the only
  non-finite float the code uses is \<^verbatim>\<open>float('inf')\<close>, the initial value of every
  cached distance, modelled by \<open>PInf\<close>. The order is the one of Python's \<^verbatim>\<open><\<close> on floats.
\<close>

type_synonym point = "real list"

datatype pyfloat = Fin real | PInf

instantiation pyfloat :: linorder
begin

fun less_eq_pyfloat :: "pyfloat \<Rightarrow> pyfloat \<Rightarrow> bool" where
  "less_eq_pyfloat (Fin a) (Fin b) = (a \<le> b)"
| "less_eq_pyfloat (Fin a) PInf = True"
| "less_eq_pyfloat PInf (Fin b) = False"
| "less_eq_pyfloat PInf PInf = True"

fun less_pyfloat :: "pyfloat \<Rightarrow> pyfloat \<Rightarrow> bool" where
  "less_pyfloat (Fin a) (Fin b) = (a < b)"
| "less_pyfloat (Fin a) PInf = True"
| "less_pyfloat PInf (Fin b) = False"
| "less_pyfloat PInf PInf = False"

instance
proof
  fix x y z :: pyfloat
  show "(x < y) = (x \<le> y \<and> \<not> y \<le> x)"
    by (cases x; cases y) auto
  show "x \<le> x"
    by (cases x) auto
  show "x \<le> y \<Longrightarrow> y \<le> z \<Longrightarrow> x \<le> z"
    by (cases x; cases y; cases z) auto
  show "x \<le> y \<Longrightarrow> y \<le> x \<Longrightarrow> x = y"
    by (cases x; cases y) auto
  show "x \<le> y \<or> y \<le> x"
    by (cases x; cases y) auto
qed

end

text \<open>The exceptions Python raises implicitly in this code (the source has no \<^verbatim>\<open>raise\<close>).\<close>

datatype error = ValueError | IndexError | TypeError | ZeroDivisionError

text \<open>
  \<^verbatim>\<open>class cure_cluster\<close>. \<open>closest\<close> is a reference to another cluster object: objects
  live in a heap (a list, the index is the object's identity), so a reference is an index.
  \<open>ditance\<close> is the attribute that the assignment \<^verbatim>\<open>item.ditance = distance\<close> of
  \<^verbatim>\<open>process\<close> creates on the object; nothing reads it.
\<close>

record cure_cluster =
  points :: "point list"
  mean :: "point option"
  rep :: "point list"
  closest :: "nat option"
  distance :: pyfloat
  ditance :: "pyfloat option"

definition cure_cluster_of_point :: "point \<Rightarrow> cure_cluster" where
  "cure_cluster_of_point point =
     \<lparr>points = [point], mean = Some point, rep = [point],
      closest = None, distance = PInf, ditance = None\<rparr>"

definition cure_cluster_empty :: cure_cluster where
  "cure_cluster_empty =
     \<lparr>points = [], mean = None, rep = [],
      closest = None, distance = PInf, ditance = None\<rparr>"

text \<open>
  The spatial index: an entry per inserted point, tagged with the identity of the owning
  cluster, in insertion order.
\<close>

type_synonym kdtree = "(point \<times> nat) list"

text \<open>
  \<^verbatim>\<open>class cure\<close> with \<^verbatim>\<open>ccore = False\<close> (the native backend is outside the engine).
  \<open>clusters\<close> is \<^verbatim>\<open>__clusters\<close>: \<open>None\<close> until \<^verbatim>\<open>process\<close> has run.
\<close>

record cure =
  pointer_data :: "point list"
  number_cluster :: int
  number_represent_points :: int
  compression :: real
  heap :: "cure_cluster list"
  queue :: "nat list"
  tree :: kdtree
  clusters :: "point list list option"

section \<open>Collaborators that are not part of the source tree\<close>

text \<open>
  Modelled from the spec: \<^verbatim>\<open>pyclustering.support.euclidean_distance\<close> is missing; the spec
  calls it "Euclidean distance between equal-length vectors".
\<close>

definition euclidean_distance :: "point \<Rightarrow> point \<Rightarrow> real" where
  "euclidean_distance a b = sqrt (\<Sum>(x, y)\<leftarrow>zip a b. (x - y)\<^sup>2)"

text \<open>
  Modelled from the spec: \<^verbatim>\<open>pyclustering.support.kdtree\<close> is missing. The spec gives
  \<^verbatim>\<open>insert(point, ownerCluster)\<close>, \<^verbatim>\<open>remove(point)\<close> ("removes the exact coordinate match
  inserted earlier") and \<^verbatim>\<open>nearestWithinRadius(point, radius)\<close> ("every indexed point within
  radius of point", as pairs of distance and owner). \<open>kd_remove\<close> gets the coordinates
  only, as in the call \<^verbatim>\<open>self.__tree.remove(point)\<close>, and removes the oldest entry that has
  them.
\<close>

definition kd_insert :: "point \<Rightarrow> nat \<Rightarrow> kdtree \<Rightarrow> kdtree" where
  "kd_insert p c t = t @ [(p, c)]"

fun kd_remove :: "point \<Rightarrow> kdtree \<Rightarrow> kdtree" where
  "kd_remove p [] = []"
| "kd_remove p (e # t) = (if fst e = p then t else e # kd_remove p t)"

definition find_nearest_dist_nodes :: "kdtree \<Rightarrow> point \<Rightarrow> pyfloat \<Rightarrow> (pyfloat \<times> nat) list" where
  "find_nearest_dist_nodes t p radius =
     map (\<lambda>e. (Fin (euclidean_distance p (fst e)), snd e))
       (filter (\<lambda>e. Fin (euclidean_distance p (fst e)) \<le> radius) t)"

section \<open>Helpers for Python's implicit exceptions\<close>

fun map_err :: "('a \<Rightarrow> error + 'b) \<Rightarrow> 'a list \<Rightarrow> error + 'b list" where
  "map_err f [] = Inr []"
| "map_err f (x # xs) =
     (case f x of Inl e \<Rightarrow> Inl e
      | Inr y \<Rightarrow> (case map_err f xs of Inl e \<Rightarrow> Inl e | Inr ys \<Rightarrow> Inr (y # ys)))"

text \<open>\<^verbatim>\<open>list.remove(x)\<close>: removes the first occurrence, \<^verbatim>\<open>ValueError\<close> when there is none.\<close>

definition list_remove :: "'a \<Rightarrow> 'a list \<Rightarrow> error + 'a list" where
  "list_remove x xs = (if x \<in> set xs then Inr (remove1 x xs) else Inl ValueError)"

section \<open>The engine\<close>

subsection \<open>\<^verbatim>\<open>__cluster_distance\<close>\<close>

definition cluster_distance :: "cure_cluster \<Rightarrow> cure_cluster \<Rightarrow> pyfloat" where
  "cluster_distance cluster1 cluster2 =
     fold (\<lambda>a d. fold (\<lambda>b d. if Fin (euclidean_distance a b) < d
                               then Fin (euclidean_distance a b) else d) (rep cluster2) d)
       (rep cluster1) PInf"

subsection \<open>\<^verbatim>\<open>__merge_clusters\<close>\<close>

text \<open>Line 246: one coordinate of the merged mean.\<close>

definition merged_mean_at :: "cure_cluster \<Rightarrow> cure_cluster \<Rightarrow> point \<Rightarrow> nat \<Rightarrow> error + real" where
  "merged_mean_at cluster1 cluster2 m1 index =
     (case mean cluster2 of
        None \<Rightarrow> Inl TypeError
      | Some m2 \<Rightarrow>
          if length m2 \<le> index then Inl IndexError
          else if length (points cluster1) + length (points cluster2) = 0
          then Inl ZeroDivisionError
          else Inr ((real (length (points cluster1)) * m1 ! index
                     + real (length (points cluster2)) * m2 ! index)
                    / real (length (points cluster1) + length (points cluster2))))"

text \<open>
  Lines 251 to 265: the inner loop, a running maximum that is replaced on
  greater-or-equal; \<open>None\<close> when there is no point.
\<close>

definition maximal_point :: "(point \<Rightarrow> real) \<Rightarrow> point list \<Rightarrow> point option" where
  "maximal_point f pts =
     snd (fold (\<lambda>point (maximal_distance, best).
                  if f point \<ge> maximal_distance then (f point, Some point)
                  else (maximal_distance, best)) pts (0, None))"

text \<open>
  Lines 250 to 268. In every iteration but the first the distance is measured to
  \<^verbatim>\<open>temporary[0]\<close>, which exists then and is a point whenever the inner loop has a point
  to measure (the last case below is never evaluated).
\<close>

definition select_step :: "point list \<Rightarrow> point \<Rightarrow> nat \<Rightarrow> point option list \<Rightarrow> point option list" where
  "select_step pts m index temporary =
     (let best = maximal_point
            (\<lambda>point. if index = 0 then euclidean_distance point m
                      else (case temporary of
                              Some first # _ \<Rightarrow> euclidean_distance point first
                            | _ \<Rightarrow> 0)) pts
      in if best \<in> set temporary then temporary else temporary @ [best])"

definition select_temporary :: "nat \<Rightarrow> point list \<Rightarrow> point \<Rightarrow> point option list" where
  "select_temporary n pts m = fold (select_step pts m) [0..<n] []"

text \<open>Lines 270 to 275: a selected point is moved toward the mean.\<close>

definition shrink_point :: "real \<Rightarrow> point \<Rightarrow> point option \<Rightarrow> error + point" where
  "shrink_point c m sel =
     (case sel of
        None \<Rightarrow> (if m = [] then Inr [] else Inl TypeError)
      | Some p \<Rightarrow>
          map_err (\<lambda>index. if index < length p
                           then Inr (p ! index + c * (m ! index - p ! index))
                           else Inl IndexError) [0..<length m])"

definition merge_clusters :: "int \<Rightarrow> real \<Rightarrow> cure_cluster \<Rightarrow> cure_cluster \<Rightarrow> error + cure_cluster" where
  "merge_clusters r c cluster1 cluster2 =
     (case mean cluster1 of
        None \<Rightarrow> Inl TypeError
      | Some m1 \<Rightarrow>
         (case map_err (merged_mean_at cluster1 cluster2 m1) [0..<length m1] of
            Inl e \<Rightarrow> Inl e
          | Inr m \<Rightarrow>
             (case map_err (shrink_point c m)
                     (select_temporary (nat r) (points cluster1 @ points cluster2) m) of
                Inl e \<Rightarrow> Inl e
              | Inr reps \<Rightarrow>
                  Inr (cure_cluster_empty
                         \<lparr>points := points cluster1 @ points cluster2,
                          mean := Some m, rep := reps\<rparr>))))"

subsection \<open>Index maintenance and \<^verbatim>\<open>__closest_cluster\<close>\<close>

definition insert_represented_points :: "kdtree \<Rightarrow> nat \<Rightarrow> cure_cluster \<Rightarrow> kdtree" where
  "insert_represented_points t cid cluster = fold (\<lambda>p t. kd_insert p cid t) (rep cluster) t"

definition delete_represented_points :: "kdtree \<Rightarrow> cure_cluster \<Rightarrow> kdtree" where
  "delete_represented_points t cluster = fold kd_remove (rep cluster) t"

definition closest_cluster :: "kdtree \<Rightarrow> nat \<Rightarrow> cure_cluster \<Rightarrow> pyfloat \<Rightarrow> nat option \<times> pyfloat" where
  "closest_cluster t cid cluster radius =
     fold (\<lambda>point acc.
             fold (\<lambda>node (nearest_cluster, nearest_distance).
                     if fst node < nearest_distance \<and> snd node \<noteq> cid
                     then (Some (snd node), fst node)
                     else (nearest_cluster, nearest_distance))
               (find_nearest_dist_nodes t point radius) acc)
       (rep cluster) (None, PInf)"

subsection \<open>\<^verbatim>\<open>__insert_cluster\<close> and \<^verbatim>\<open>__relocate_cluster\<close>\<close>

fun insert_cluster :: "cure_cluster list \<Rightarrow> nat \<Rightarrow> nat list \<Rightarrow> nat list" where
  "insert_cluster h c [] = [c]"
| "insert_cluster h c (x # q) =
     (if distance (h ! c) < distance (h ! x) then c # x # q
      else x # insert_cluster h c q)"

definition relocate_cluster :: "cure_cluster list \<Rightarrow> nat \<Rightarrow> nat list \<Rightarrow> error + nat list" where
  "relocate_cluster h c q =
     (case list_remove c q of Inl e \<Rightarrow> Inl e | Inr q' \<Rightarrow> Inr (insert_cluster h c q'))"

fun relocate_all :: "cure_cluster list \<Rightarrow> nat list \<Rightarrow> nat list \<Rightarrow> error + nat list" where
  "relocate_all h [] q = Inr q"
| "relocate_all h (item # items) q =
     (case relocate_cluster h item q of Inl e \<Rightarrow> Inl e | Inr q' \<Rightarrow> relocate_all h items q')"

subsection \<open>\<^verbatim>\<open>__create_queue\<close>, \<^verbatim>\<open>__create_kdtree\<close> and the constructor\<close>

text \<open>
  Lines 292 to 300 for one \<open>i\<close>: the pair of \<^verbatim>\<open>minimal_distance\<close> and
  \<^verbatim>\<open>closest_index_cluster\<close>, which starts at \<open>-1\<close>.
\<close>

definition closest_scan :: "cure_cluster list \<Rightarrow> nat \<Rightarrow> pyfloat \<times> int" where
  "closest_scan h i =
     fold (\<lambda>k (minimal_distance, closest_index_cluster).
             if i \<noteq> k \<and> cluster_distance (h ! i) (h ! k) < minimal_distance
             then (cluster_distance (h ! i) (h ! k), int k)
             else (minimal_distance, closest_index_cluster))
       [0..<length h] (PInf, - 1)"

text \<open>Python's list index: a negative index counts from the end.\<close>

definition py_index :: "nat \<Rightarrow> int \<Rightarrow> nat" where
  "py_index n j = nat (if j < 0 then int n + j else j)"

definition set_closest :: "nat \<Rightarrow> cure_cluster list \<Rightarrow> cure_cluster list" where
  "set_closest i h =
     h[i := (h ! i)\<lparr>closest := Some (py_index (length h) (snd (closest_scan h i))),
                    distance := fst (closest_scan h i)\<rparr>]"

text \<open>
  \<^verbatim>\<open>list.sort(key = ...)\<close> is stable, and so is \<open>sort_key\<close>. The objects are created in
  the order of the input, so the identity of the cluster of the \<open>i\<close>-th point is \<open>i\<close>.
\<close>

definition create_queue :: "point list \<Rightarrow> cure_cluster list \<times> nat list" where
  "create_queue data =
     (let h = fold set_closest [0..<length data] (map cure_cluster_of_point data)
      in (h, sort_key (\<lambda>i. distance (h ! i)) [0..<length data]))"

definition create_kdtree :: "cure_cluster list \<Rightarrow> nat list \<Rightarrow> kdtree" where
  "create_kdtree h q = fold (\<lambda>c t. insert_represented_points t c (h ! c)) q []"

definition cure_init :: "point list \<Rightarrow> int \<Rightarrow> int \<Rightarrow> real \<Rightarrow> cure" where
  "cure_init data k r c =
     (let (h, q) = create_queue data
      in \<lparr>pointer_data = data, number_cluster = k, number_represent_points = r,
          compression = c, heap = h, queue = q, tree = create_kdtree h q,
          clusters = None\<rparr>)"

subsection \<open>\<^verbatim>\<open>process\<close>\<close>

text \<open>
  Lines 121 to 152: the body of the loop over the remaining clusters, for one \<open>item\<close>.
  \<open>m\<close> is the identity of the merged cluster, \<open>c1\<close> and \<open>c2\<close> those of the two clusters
  that were merged; the state of the loop is the heap and the relocation requests.
\<close>

definition repair_item ::
  "kdtree \<Rightarrow> nat \<Rightarrow> nat \<Rightarrow> nat \<Rightarrow> nat \<Rightarrow> cure_cluster list \<times> nat list
    \<Rightarrow> cure_cluster list \<times> nat list" where
  "repair_item t c1 c2 m item = (\<lambda>(h, requests).
     (let d = cluster_distance (h ! m) (h ! item);
          h1 = (if d < distance (h ! m)
                then h[m := (h ! m)\<lparr>closest := Some item, distance := d\<rparr>] else h)
      in if closest (h1 ! item) = Some c1 \<or> closest (h1 ! item) = Some c2 then
           (if distance (h1 ! item) < d then
              (let found = closest_cluster t item (h1 ! item) d;
                   h2 = h1[item := (h1 ! item)\<lparr>closest := fst found, distance := snd found\<rparr>]
               in if closest (h2 ! item) = None
                  then (h2[item := (h2 ! item)\<lparr>closest := Some m, distance := d\<rparr>],
                        requests @ [item])
                  else (h2, requests @ [item]))
            else (h1[item := (h1 ! item)\<lparr>closest := Some m, distance := d\<rparr>],
                  requests @ [item]))
         else if distance (h1 ! item) > d then
           (h1[item := (h1 ! item)\<lparr>closest := Some m, ditance := Some d\<rparr>],
            requests @ [item])
         else (h1, requests)))"

text \<open>Lines 116 to 152.\<close>

definition repair_all ::
  "kdtree \<Rightarrow> nat \<Rightarrow> nat \<Rightarrow> nat \<Rightarrow> nat list \<Rightarrow> cure_cluster list
    \<Rightarrow> cure_cluster list \<times> nat list" where
  "repair_all t c1 c2 m q h =
     (case q of
        [] \<Rightarrow> (h, [])
      | first # _ \<Rightarrow>
          fold (repair_item t c1 c2 m) q
            (h[m := (h ! m)\<lparr>closest := Some first,
                            distance := cluster_distance (h ! m) (h ! first)\<rparr>], []))"

text \<open>Lines 97 to 156: one round of the loop.\<close>

definition merge_round :: "cure \<Rightarrow> error + cure" where
  "merge_round s =
     (case queue s of
        [] \<Rightarrow> Inl IndexError
      | cluster1 # _ \<Rightarrow>
         (case list_remove cluster1 (queue s) of
            Inl e \<Rightarrow> Inl e
          | Inr q1 \<Rightarrow>
             (case closest (heap s ! cluster1) of
                None \<Rightarrow> Inl ValueError
              | Some cluster2 \<Rightarrow>
                 (case list_remove cluster2 q1 of
                    Inl e \<Rightarrow> Inl e
                  | Inr q2 \<Rightarrow>
                     (case merge_clusters (number_represent_points s) (compression s)
                             (heap s ! cluster1) (heap s ! cluster2) of
                        Inl e \<Rightarrow> Inl e
                      | Inr merged_cluster \<Rightarrow>
                         (let m = length (heap s);
                              t = insert_represented_points
                                    (delete_represented_points
                                       (delete_represented_points (tree s) (heap s ! cluster1))
                                       (heap s ! cluster2))
                                    m merged_cluster;
                              (h, requests) =
                                 repair_all t cluster1 cluster2 m q2 (heap s @ [merged_cluster])
                          in (case relocate_all h requests (insert_cluster h m q2) of
                                Inl e \<Rightarrow> Inl e
                              | Inr q \<Rightarrow> Inr (s\<lparr>heap := h, queue := q, tree := t\<rparr>))))))))"

text \<open>
  Lines 96 to 156: the loop. The second argument counts the rounds that have been
  performed; the source has no such counter, it is there to state how many rounds a run
  takes.
\<close>

function process_loop :: "cure \<Rightarrow> nat \<Rightarrow> error + cure \<times> nat" where
  "process_loop s rounds =
     (if number_cluster s < int (length (queue s)) then
        (case merge_round s of
           Inl e \<Rightarrow> Inl e
         | Inr s' \<Rightarrow> process_loop s' (Suc rounds))
      else Inr (s, rounds))"
  by pat_completeness auto

text \<open>Lines 89 to 165: \<^verbatim>\<open>process\<close> and \<^verbatim>\<open>get_clusters\<close>.\<close>

definition process :: "cure \<Rightarrow> error + cure" where
  "process s =
     (case process_loop s 0 of
        Inl e \<Rightarrow> Inl e
      | Inr (s', rounds) \<Rightarrow>
          Inr (s'\<lparr>clusters := Some (map (\<lambda>c. points (heap s' ! c)) (queue s'))\<rparr>))"

definition get_clusters :: "cure \<Rightarrow> point list list option" where
  "get_clusters s = clusters s"

section \<open>Notions used to state the properties\<close>

text \<open>The multiset of the member points of the clusters in the queue.\<close>

definition frontier_points :: "cure \<Rightarrow> point multiset" where
  "frontier_points s = (\<Sum>c\<in>#mset (queue s). mset (points (heap s ! c)))"

text \<open>Every reference in the queue is to an object that has been created.\<close>

definition queue_bounded :: "cure \<Rightarrow> bool" where
  "queue_bounded s \<longleftrightarrow> (\<forall>c\<in>set (queue s). c < length (heap s))"

text \<open>The cached distances of the clusters in the queue, in queue order.\<close>

definition queue_distances :: "cure \<Rightarrow> pyfloat list" where
  "queue_distances s = map (\<lambda>c. distance (heap s ! c)) (queue s)"

text \<open>Two heaps hold the same objects up to the cached neighbour fields.\<close>

definition same_data :: "cure_cluster list \<Rightarrow> cure_cluster list \<Rightarrow> bool" where
  "same_data h h' \<longleftrightarrow>
     length h' = length h \<and>
     (\<forall>i. points (h' ! i) = points (h ! i) \<and> mean (h' ! i) = mean (h ! i)
        \<and> rep (h' ! i) = rep (h ! i))"

text \<open>
  A point \<open>q\<close> of \<open>pts\<close> at which \<open>f\<close> is maximal, and the last such point in the
  order of \<open>pts\<close>.
\<close>

definition last_maximum :: "(point \<Rightarrow> real) \<Rightarrow> point list \<Rightarrow> point \<Rightarrow> bool" where
  "last_maximum f pts q \<longleftrightarrow>
     (\<exists>ys zs. pts = ys @ q # zs \<and> (\<forall>y\<in>set ys. f y \<le> f q) \<and> (\<forall>z\<in>set zs. f z < f q))"

text \<open>
  The selection of the representatives as claim C5 words it, for comparison with
  \<open>select_temporary\<close>: the first representative is the point farthest from the mean; each
  further one is the point not yet selected that is farthest from the representative
  selected last; ties go to the point met last; the selection stops after \<open>n\<close>
  representatives or when every point is selected.
\<close>

fun claimed_extend :: "nat \<Rightarrow> point list \<Rightarrow> point list \<Rightarrow> point list" where
  "claimed_extend 0 pts selected = selected"
| "claimed_extend (Suc n) pts selected =
     (case maximal_point (\<lambda>p. euclidean_distance p (last selected))
             (filter (\<lambda>p. p \<notin> set selected) pts) of
        None \<Rightarrow> selected
      | Some q \<Rightarrow> claimed_extend n pts (selected @ [q]))"

definition claimed_select :: "nat \<Rightarrow> point list \<Rightarrow> point \<Rightarrow> point list" where
  "claimed_select n pts m =
     (case n of
        0 \<Rightarrow> []
      | Suc k \<Rightarrow>
          (case maximal_point (\<lambda>p. euclidean_distance p m) pts of
             None \<Rightarrow> []
           | Some q \<Rightarrow> claimed_extend k pts [q]))"

text \<open>
  The repair of a cluster whose neighbour was merged away as claim C4 words it, for
  comparison with the first branch of \<open>repair_item\<close>: the query runs with the cached
  distance of the cluster as its radius, and the merged cluster \<open>m\<close> at distance \<open>d\<close> is
  taken when the query finds no other cluster.
\<close>

definition claimed_rederive ::
  "kdtree \<Rightarrow> nat \<Rightarrow> nat \<Rightarrow> cure_cluster \<Rightarrow> pyfloat \<Rightarrow> nat option \<times> pyfloat" where
  "claimed_rederive t m item cluster d =
     (let found = closest_cluster t item cluster (distance cluster)
      in if fst found = None then (Some m, d) else found)"



section \<open>Structure of a round\<close>

lemma list_remove_Inr:
  "list_remove x xs = Inr ys \<Longrightarrow> x \<in> set xs \<and> ys = remove1 x xs"
  by (auto simp: list_remove_def split: if_splits)

lemma mset_insert_cluster: "mset (insert_cluster h c q) = add_mset c (mset q)"
  by (induction q) auto

lemma mset_relocate_cluster:
  "relocate_cluster h c q = Inr q' \<Longrightarrow> mset q' = mset q"
  by (auto simp: relocate_cluster_def mset_insert_cluster dest!: list_remove_Inr split: sum.splits)

lemma mset_relocate_all:
  "relocate_all h items q = Inr q' \<Longrightarrow> mset q' = mset q"
proof (induction items arbitrary: q)
  case Nil
  then show ?case by simp
next
  case (Cons item items)
  then show ?case
    by (auto split: sum.splits dest: mset_relocate_cluster)
qed

lemma merge_round_Inr:
  assumes "merge_round s = Inr s'"
  shows "\<exists>c1 rest c2 mc h rq q.
     queue s = c1 # rest \<and> closest (heap s ! c1) = Some c2 \<and> c2 \<in> set rest \<and>
     merge_clusters (number_represent_points s) (compression s) (heap s ! c1) (heap s ! c2) = Inr mc \<and>
     repair_all (insert_represented_points
                   (delete_represented_points
                      (delete_represented_points (tree s) (heap s ! c1)) (heap s ! c2))
                   (length (heap s)) mc)
        c1 c2 (length (heap s)) (remove1 c2 rest) (heap s @ [mc]) = (h, rq) \<and>
     relocate_all h rq (insert_cluster h (length (heap s)) (remove1 c2 rest)) = Inr q \<and>
     s' = s\<lparr>heap := h, queue := q,
             tree := insert_represented_points
                   (delete_represented_points
                      (delete_represented_points (tree s) (heap s ! c1)) (heap s ! c2))
                   (length (heap s)) mc\<rparr>"
  using assms
  by (auto simp: merge_round_def list_remove_def Let_def
      split: list.splits sum.splits option.splits prod.splits if_splits)

lemma nth_list_update_total: "h[j := c] ! i = (if i = j \<and> j < length h then c else h ! i)"
  by (cases "j < length h") (auto simp: nth_list_update list_update_beyond)

lemma same_data_refl: "same_data h h"
  by (simp add: same_data_def)

lemma same_data_trans: "same_data h h' \<Longrightarrow> same_data h' h'' \<Longrightarrow> same_data h h''"
  by (simp add: same_data_def)

lemma same_data_repair_item:
  "repair_item t c1 c2 m item (h, rq) = (h', rq') \<Longrightarrow> same_data h h'"
  unfolding repair_item_def
  by (auto simp: Let_def same_data_def nth_list_update_total split: if_splits)

lemma same_data_fold_repair:
  "fold (repair_item t c1 c2 m) q (h, rq) = (h', rq') \<Longrightarrow> same_data h h'"
proof (induction q arbitrary: h rq)
  case Nil
  then show ?case by (simp add: same_data_refl)
next
  case (Cons item q)
  obtain h1 rq1 where s: "repair_item t c1 c2 m item (h, rq) = (h1, rq1)"
    by (cases "repair_item t c1 c2 m item (h, rq)")
  with Cons show ?case
    by (auto dest!: same_data_repair_item intro: same_data_trans)
qed

lemma same_data_repair_all:
  "repair_all t c1 c2 m q h = (h', rq) \<Longrightarrow> same_data h h'"
proof (cases q)
  case Nil
  assume "repair_all t c1 c2 m q h = (h', rq)"
  with Nil show ?thesis by (simp add: repair_all_def same_data_refl)
next
  case (Cons first q')
  assume "repair_all t c1 c2 m q h = (h', rq)"
  with Cons have "fold (repair_item t c1 c2 m) q
      (h[m := (h ! m)\<lparr>closest := Some first,
                      distance := cluster_distance (h ! m) (h ! first)\<rparr>], []) = (h', rq)"
    by (simp only: repair_all_def list.case)
  then have "same_data (h[m := (h ! m)\<lparr>closest := Some first,
                            distance := cluster_distance (h ! m) (h ! first)\<rparr>]) h'"
    by (rule same_data_fold_repair)
  moreover have "same_data h (h[m := (h ! m)\<lparr>closest := Some first,
                            distance := cluster_distance (h ! m) (h ! first)\<rparr>])"
    by (simp add: same_data_def nth_list_update_total)
  ultimately show ?thesis by (blast intro: same_data_trans)
qed

lemma merge_clusters_points:
  "merge_clusters r c a b = Inr mc \<Longrightarrow> points mc = points a @ points b"
  by (auto simp: merge_clusters_def cure_cluster_empty_def split: option.splits sum.splits)

lemma merge_round_frame:
  assumes "merge_round s = Inr s'"
  shows "\<exists>c1 rest c2 mc.
     queue s = c1 # rest \<and> closest (heap s ! c1) = Some c2 \<and> c2 \<in> set rest \<and>
     merge_clusters (number_represent_points s) (compression s) (heap s ! c1) (heap s ! c2) = Inr mc \<and>
     mset (queue s') = add_mset (length (heap s)) (mset (remove1 c2 rest)) \<and>
     same_data (heap s @ [mc]) (heap s')"
proof -
  from merge_round_Inr[OF assms] obtain c1 rest c2 mc h rq q where
    a: "queue s = c1 # rest" "closest (heap s ! c1) = Some c2" "c2 \<in> set rest"
       "merge_clusters (number_represent_points s) (compression s) (heap s ! c1) (heap s ! c2) = Inr mc"
    and rp: "repair_all (insert_represented_points
                   (delete_represented_points
                      (delete_represented_points (tree s) (heap s ! c1)) (heap s ! c2))
                   (length (heap s)) mc)
        c1 c2 (length (heap s)) (remove1 c2 rest) (heap s @ [mc]) = (h, rq)"
    and r: "relocate_all h rq (insert_cluster h (length (heap s)) (remove1 c2 rest)) = Inr q"
    and s': "queue s' = q" "heap s' = h"
    by auto
  have "mset q = add_mset (length (heap s)) (mset (remove1 c2 rest))"
    using mset_relocate_all[OF r] by (simp add: mset_insert_cluster)
  moreover have "same_data (heap s @ [mc]) h"
    using rp by (rule same_data_repair_all)
  ultimately show ?thesis using a s' by auto
qed

lemma merge_round_config:
  "merge_round s = Inr s' \<Longrightarrow>
     number_cluster s' = number_cluster s \<and>
     number_represent_points s' = number_represent_points s \<and>
     compression s' = compression s \<and> pointer_data s' = pointer_data s"
  by (drule merge_round_Inr) auto

lemma merge_round_length:
  "merge_round s = Inr s' \<Longrightarrow> Suc (length (queue s')) = length (queue s)"
proof -
  assume "merge_round s = Inr s'"
  from merge_round_frame[OF this] obtain c1 rest c2 where
    q: "queue s = c1 # rest" "c2 \<in> set rest"
    and m: "mset (queue s') = add_mset (length (heap s)) (mset (remove1 c2 rest))"
    by auto
  have "mset (queue s') = mset (length (heap s) # remove1 c2 rest)"
    using m by simp
  then have "length (queue s') = length (length (heap s) # remove1 c2 rest)"
    by (rule mset_eq_length)
  with q length_pos_if_in_set[OF q(2)] show ?thesis by (simp add: length_remove1)
qed

termination process_loop
  by (relation "measure (\<lambda>(s, r). length (queue s))") (auto dest: merge_round_length)

declare process_loop.simps [simp del]

lemma merge_round_bounded:
  assumes "merge_round s = Inr s'" "queue_bounded s"
  shows "queue_bounded s'"
proof -
  from merge_round_frame[OF assms(1)] obtain c1 rest c2 mc where
    a: "queue s = c1 # rest"
    and m: "mset (queue s') = add_mset (length (heap s)) (mset (remove1 c2 rest))"
    and f: "same_data (heap s @ [mc]) (heap s')"
    by auto
  have l: "length (heap s') = Suc (length (heap s))"
    using f by (simp add: same_data_def)
  have "set (queue s') = insert (length (heap s)) (set (remove1 c2 rest))"
    using m by (metis set_mset_add_mset_insert set_mset_mset)
  then have "set (queue s') \<subseteq> insert (length (heap s)) (set (queue s))"
    using a set_remove1_subset[of c2 rest] by auto
  then have "\<And>c. c \<in> set (queue s') \<Longrightarrow> c = length (heap s) \<or> c \<in> set (queue s)"
    by auto
  with assms(2) l show ?thesis
    unfolding queue_bounded_def by fastforce
qed

lemma merge_round_points:
  assumes "merge_round s = Inr s'" "queue_bounded s"
  shows "frontier_points s' = frontier_points s"
proof -
  from merge_round_frame[OF assms(1)] obtain c1 rest c2 mc where
    a: "queue s = c1 # rest" "c2 \<in> set rest"
    and mc: "merge_clusters (number_represent_points s) (compression s) (heap s ! c1) (heap s ! c2) = Inr mc"
    and m: "mset (queue s') = add_mset (length (heap s)) (mset (remove1 c2 rest))"
    and f: "same_data (heap s @ [mc]) (heap s')"
    by auto
  have pts: "\<And>i. points (heap s' ! i) = points ((heap s @ [mc]) ! i)"
    using f by (simp add: same_data_def)
  have old: "\<And>i. i \<in> set (queue s) \<Longrightarrow> points (heap s' ! i) = points (heap s ! i)"
    using assms(2) by (simp add: pts queue_bounded_def nth_append)
  have new: "points (heap s' ! length (heap s)) = points (heap s ! c1) @ points (heap s ! c2)"
    using merge_clusters_points[OF mc] by (simp add: pts)
  define R where "R = mset (remove1 c2 rest)"
  have sub: "\<And>c. c \<in># R \<Longrightarrow> c \<in> set (queue s)"
    using a set_remove1_subset[of c2 rest] unfolding R_def by (simp del: mset_remove1) blast
  have rest: "mset rest = add_mset c2 R"
    using a(2) by (simp add: R_def)
  have m': "mset (queue s') = add_mset (length (heap s)) R"
    using m by (simp only: R_def)
  have "image_mset (\<lambda>c. mset (points (heap s' ! c))) R
        = image_mset (\<lambda>c. mset (points (heap s ! c))) R"
    by (rule image_mset_cong) (simp add: sub old)
  then show ?thesis
    unfolding frontier_points_def m' a(1)
    by (simp add: new rest)
qed

section \<open>The initial state and the loop\<close>

lemma same_data_set_closest: "same_data h (set_closest i h)"
  by (simp add: set_closest_def same_data_def nth_list_update_total)

lemma same_data_fold_set_closest: "same_data h (fold set_closest is h)"
proof (induction "is" arbitrary: h)
  case Nil
  then show ?case by (simp add: same_data_refl)
next
  case (Cons i "is")
  show ?case
    using same_data_trans[OF same_data_set_closest Cons] by simp
qed

lemma create_queue_heap:
  "same_data (map cure_cluster_of_point data) (fst (create_queue data))"
  by (simp add: create_queue_def Let_def same_data_fold_set_closest)

lemma create_queue_queue:
  "mset (snd (create_queue data)) = mset [0..<length data]"
  by (simp add: create_queue_def Let_def del: mset_upt)

lemma cure_init_heap:
  "same_data (map cure_cluster_of_point data) (heap (cure_init data k r c))"
  using create_queue_heap[of data]
  by (simp add: cure_init_def split_beta)

lemma cure_init_queue:
  "mset (queue (cure_init data k r c)) = mset [0..<length data]"
  using create_queue_queue[of data]
  by (simp add: cure_init_def split_beta del: mset_upt)

lemma cure_init_config:
  "number_cluster (cure_init data k r c) = k"
  "number_represent_points (cure_init data k r c) = r"
  "compression (cure_init data k r c) = c"
  "pointer_data (cure_init data k r c) = data"
  "clusters (cure_init data k r c) = None"
  by (simp_all add: cure_init_def split_beta)

lemma cure_init_length:
  "length (queue (cure_init data k r c)) = length data"
  "length (heap (cure_init data k r c)) = length data"
  using mset_eq_length[OF cure_init_queue[of data k r c]] cure_init_heap[of data k r c]
  by (simp_all add: same_data_def)

lemma cure_init_points:
  "i < length data \<Longrightarrow> points (heap (cure_init data k r c) ! i) = [data ! i]"
  using cure_init_heap[of data k r c]
  by (simp add: same_data_def cure_cluster_of_point_def)

lemma cure_init_bounded: "queue_bounded (cure_init data k r c)"
proof -
  have "set (queue (cure_init data k r c)) = set [0..<length data]"
    using cure_init_queue[of data k r c] by (rule mset_eq_setD)
  then show ?thesis
    by (simp add: queue_bounded_def cure_init_length)
qed

lemma sum_mset_singletons: "(\<Sum>i\<in>#mset xs. {#f i#}) = mset (map f xs)"
  by (induction xs) auto

lemma cure_init_frontier: "frontier_points (cure_init data k r c) = mset data"
proof -
  have "frontier_points (cure_init data k r c)
        = (\<Sum>i\<in>#mset [0..<length data]. mset (points (heap (cure_init data k r c) ! i)))"
    by (simp only: frontier_points_def cure_init_queue)
  also have "image_mset (\<lambda>i. mset (points (heap (cure_init data k r c) ! i))) (mset [0..<length data])
        = image_mset (\<lambda>i. {#data ! i#}) (mset [0..<length data])"
    by (rule image_mset_cong) (simp add: cure_init_points)
  also have "(\<Sum>i\<in>#mset [0..<length data]. {#data ! i#}) = mset (map ((!) data) [0..<length data])"
    by (rule sum_mset_singletons)
  also have "\<dots> = mset data"
    by (simp only: map_nth)
  finally show ?thesis .
qed

lemma process_loop_invariant:
  "process_loop s r = Inr (s', r') \<Longrightarrow> queue_bounded s \<Longrightarrow>
     queue_bounded s' \<and> frontier_points s' = frontier_points s"
proof (induction s r rule: process_loop.induct)
  case (1 s rounds)
  show ?case
  proof (cases "number_cluster s < int (length (queue s))")
    case True
    with "1.prems"(1) obtain s1 where
      m: "merge_round s = Inr s1" and l: "process_loop s1 (Suc rounds) = Inr (s', r')"
      by (auto simp: process_loop.simps[of s rounds] split: sum.splits)
    have b: "queue_bounded s1" using m "1.prems"(2) by (rule merge_round_bounded)
    from "1.IH"[OF True m l b] merge_round_points[OF m "1.prems"(2)]
    show ?thesis by simp
  next
    case False
    with "1.prems" show ?thesis
      by (simp add: process_loop.simps[of s rounds])
  qed
qed

lemma process_loop_count:
  "process_loop s r = Inr (s', r') \<Longrightarrow> number_cluster s \<le> int (length (queue s)) \<Longrightarrow>
     int (length (queue s')) = number_cluster s \<and> r' + length (queue s') = r + length (queue s)
     \<and> number_cluster s' = number_cluster s"
proof (induction s r rule: process_loop.induct)
  case (1 s rounds)
  show ?case
  proof (cases "number_cluster s < int (length (queue s))")
    case True
    with "1.prems"(1) obtain s1 where
      m: "merge_round s = Inr s1" and l: "process_loop s1 (Suc rounds) = Inr (s', r')"
      by (auto simp: process_loop.simps[of s rounds] split: sum.splits)
    have len: "Suc (length (queue s1)) = length (queue s)"
      using m by (rule merge_round_length)
    have k: "number_cluster s1 = number_cluster s"
      using merge_round_config[OF m] by simp
    have "number_cluster s1 \<le> int (length (queue s1))"
      using True len k by linarith
    from "1.IH"[OF True m l this] len k show ?thesis by simp
  next
    case False
    with "1.prems" show ?thesis
      by (simp add: process_loop.simps[of s rounds])
  qed
qed

section \<open>Evaluation on concrete inputs\<close>

lemma euclidean_distance_1d: "euclidean_distance [x] [y] = \<bar>x - y\<bar>"
  by (simp add: euclidean_distance_def)

lemma euclidean_distance_2d:
  "euclidean_distance [x1, x2] [y1, y2] = sqrt ((x1 - y1) * (x1 - y1) + (x2 - y2) * (x2 - y2))"
  by (simp add: euclidean_distance_def power2_eq_square)

lemmas init_eval = cure_init_def create_queue_def create_kdtree_def set_closest_def closest_scan_def
  cluster_distance_def cure_cluster_of_point_def py_index_def insert_represented_points_def
  kd_insert_def upt_rec

lemmas round_eval = merge_round_def list_remove_def merge_clusters_def merged_mean_at_def
  select_temporary_def select_step_def maximal_point_def shrink_point_def cure_cluster_empty_def
  delete_represented_points_def insert_represented_points_def kd_insert_def repair_all_def
  repair_item_def closest_cluster_def find_nearest_dist_nodes_def cluster_distance_def
  relocate_cluster_def upt_rec

abbreviation five_points :: "point list" where
  "five_points \<equiv> [[0], [2], [3], [5], [7]]"

abbreviation five_init :: "int \<Rightarrow> cure" where
  "five_init k \<equiv>
     \<lparr>pointer_data = five_points, number_cluster = k, number_represent_points = 1,
      compression = 1 / 2,
      heap = [\<lparr>points = [[0]], mean = Some [0], rep = [[0]], closest = Some 1, distance = Fin 2, ditance = None\<rparr>,
              \<lparr>points = [[2]], mean = Some [2], rep = [[2]], closest = Some 2, distance = Fin 1, ditance = None\<rparr>,
              \<lparr>points = [[3]], mean = Some [3], rep = [[3]], closest = Some 1, distance = Fin 1, ditance = None\<rparr>,
              \<lparr>points = [[5]], mean = Some [5], rep = [[5]], closest = Some 2, distance = Fin 2, ditance = None\<rparr>,
              \<lparr>points = [[7]], mean = Some [7], rep = [[7]], closest = Some 3, distance = Fin 2, ditance = None\<rparr>],
      queue = [1, 2, 0, 3, 4],
      tree = [([2], 1), ([3], 2), ([0], 0), ([5], 3), ([7], 4)],
      clusters = None\<rparr>"

abbreviation five_round1 :: "int \<Rightarrow> cure" where
  "five_round1 k \<equiv>
     \<lparr>pointer_data = five_points, number_cluster = k, number_represent_points = 1,
      compression = 1 / 2,
      heap = [\<lparr>points = [[0]], mean = Some [0], rep = [[0]], closest = Some 5, distance = Fin (11 / 4), ditance = None\<rparr>,
              \<lparr>points = [[2]], mean = Some [2], rep = [[2]], closest = Some 2, distance = Fin 1, ditance = None\<rparr>,
              \<lparr>points = [[3]], mean = Some [3], rep = [[3]], closest = Some 1, distance = Fin 1, ditance = None\<rparr>,
              \<lparr>points = [[5]], mean = Some [5], rep = [[5]], closest = Some 4, distance = Fin 2, ditance = None\<rparr>,
              \<lparr>points = [[7]], mean = Some [7], rep = [[7]], closest = Some 3, distance = Fin 2, ditance = None\<rparr>,
              \<lparr>points = [[2], [3]], mean = Some [5 / 2], rep = [[11 / 4]], closest = Some 3, distance = Fin (9 / 4), ditance = None\<rparr>],
      queue = [3, 5, 4, 0],
      tree = [([0], 0), ([5], 3), ([7], 4), ([11 / 4], 5)],
      clusters = None\<rparr>"

lemma five_init: "cure_init five_points k 1 (1 / 2) = five_init k"
  by (simp add: init_eval euclidean_distance_1d)

lemma five_round1: "merge_round (five_init k) = Inr (five_round1 k)"
  by (simp add: round_eval euclidean_distance_1d)

lemma process_loop_step:
  "number_cluster s < int (length (queue s)) \<Longrightarrow> merge_round s = Inr s'
   \<Longrightarrow> process_loop s r = process_loop s' (Suc r)"
  by (subst process_loop.simps) simp

lemma process_loop_fail:
  "number_cluster s < int (length (queue s)) \<Longrightarrow> merge_round s = Inl e
   \<Longrightarrow> process_loop s r = Inl e"
  by (subst process_loop.simps) simp

lemma process_loop_stop:
  "\<not> number_cluster s < int (length (queue s)) \<Longrightarrow> process_loop s r = Inr (s, r)"
  by (subst process_loop.simps) simp

lemma five_process_loop: "process_loop (five_init 4) 0 = Inr (five_round1 4, 1)"
proof -
  have "process_loop (five_init 4) 0 = process_loop (five_round1 4) (Suc 0)"
    by (rule process_loop_step[OF _ five_round1]) simp
  also have "\<dots> = Inr (five_round1 4, Suc 0)"
    by (rule process_loop_stop) simp
  finally show ?thesis by simp
qed

lemma five_process:
  "process (cure_init five_points 4 1 (1 / 2))
   = Inr ((five_round1 4)\<lparr>clusters := Some [[[5]], [[2], [3]], [[7]], [[0]]]\<rparr>)"
  unfolding process_def five_init five_process_loop by simp

section \<open>Conservation of the member points\<close>

text \<open>
  Claim C2. When \<^verbatim>\<open>process\<close> returns, the member points of the clusters that
  \<^verbatim>\<open>get_clusters\<close> gives are, as a multiset, the input points, and the cluster sizes add
  up to the number of input points. Every merge round that completes, from a state whose
  queue refers to created clusters only, leaves the multiset of the points held by the
  clusters in the queue unchanged.
\<close>

theorem frontier_points_preserved:
  "(\<forall>s'. process (cure_init data k r c) = Inr s' \<longrightarrow>
      (\<exists>cs. get_clusters s' = Some cs \<and> mset (concat cs) = mset data
            \<and> sum_list (map length cs) = length data))
   \<and> (\<forall>s s'. queue_bounded s \<longrightarrow> merge_round s = Inr s' \<longrightarrow>
         queue_bounded s' \<and> frontier_points s' = frontier_points s)"
proof (intro conjI allI impI)
  fix s'
  assume p: "process (cure_init data k r c) = Inr s'"
  then obtain s1 r1 where l: "process_loop (cure_init data k r c) 0 = Inr (s1, r1)"
    and s': "s' = s1\<lparr>clusters := Some (map (\<lambda>c. points (heap s1 ! c)) (queue s1))\<rparr>"
    by (auto simp: process_def split: sum.splits)
  define cs where "cs = map (\<lambda>c. points (heap s1 ! c)) (queue s1)"
  have "frontier_points s1 = mset data"
    using process_loop_invariant[OF l cure_init_bounded] by (simp add: cure_init_frontier)
  moreover have "frontier_points s1 = mset (concat cs)"
    by (simp add: frontier_points_def cs_def mset_concat comp_def flip: sum_mset_sum_list)
  ultimately have m: "mset (concat cs) = mset data" by simp
  then have "length (concat cs) = length data" by (rule mset_eq_length)
  then have "sum_list (map length cs) = length data" by (simp add: length_concat)
  with m s' show "\<exists>cs. get_clusters s' = Some cs \<and> mset (concat cs) = mset data
            \<and> sum_list (map length cs) = length data"
    by (simp add: get_clusters_def cs_def)
next
  fix s s'
  assume "queue_bounded s" "merge_round s = Inr s'"
  then show "queue_bounded s'" by (simp add: merge_round_bounded)
next
  fix s s'
  assume "queue_bounded s" "merge_round s = Inr s'"
  then show "frontier_points s' = frontier_points s" by (simp add: merge_round_points)
qed

theorem frontier_points_preserved_witness:
  "process (cure_init five_points 4 1 (1 / 2))
     = Inr ((five_round1 4)\<lparr>clusters := Some [[[5]], [[2], [3]], [[7]], [[0]]]\<rparr>)
   \<and> mset (concat [[[5]], [[2], [3]], [[7]], [[0]]]) = mset five_points
   \<and> queue_bounded (five_init 4) \<and> merge_round (five_init 4) = Inr (five_round1 4)
   \<and> frontier_points (five_round1 4) = frontier_points (five_init 4)"
proof -
  have b: "queue_bounded (five_init 4)"
    by (simp add: queue_bounded_def)
  note t = frontier_points_preserved[of five_points 4 1 "1 / 2"]
  from t five_process b five_round1[of 4] show ?thesis
    by (auto simp: get_clusters_def)
qed

section \<open>Rounds and number of clusters\<close>

text \<open>
  The loop is a total function: it stops with a result or with an exception. Every round
  that completes makes the queue one cluster shorter. When the loop returns, for \<open>k\<close> at
  most the number of input points, it has performed \<open>n - k\<close> rounds and the queue holds
  \<open>k\<close> clusters.
\<close>

lemma process_loop_rounds:
  "(\<forall>s rounds. k \<le> int (length data) \<longrightarrow>
       process_loop (cure_init data k r c) 0 = Inr (s, rounds) \<longrightarrow>
         int rounds = int (length data) - k \<and> int (length (queue s)) = k \<and>
         (\<exists>s' cs. process (cure_init data k r c) = Inr s' \<and> get_clusters s' = Some cs
                   \<and> int (length cs) = k))
   \<and> (\<forall>s s'. merge_round s = Inr s' \<longrightarrow> Suc (length (queue s')) = length (queue s))"
proof (intro conjI allI impI)
  fix s rounds
  assume k: "k \<le> int (length data)"
    and l: "process_loop (cure_init data k r c) 0 = Inr (s, rounds)"
  from process_loop_count[OF l] k
  have q: "int (length (queue s)) = k" and n: "rounds + length (queue s) = length data"
    by (simp_all add: cure_init_config cure_init_length)
  from n q show "int rounds = int (length data) - k" by linarith
  from q show "int (length (queue s)) = k" .
  from l q show "\<exists>s' cs. process (cure_init data k r c) = Inr s' \<and> get_clusters s' = Some cs
                   \<and> int (length cs) = k"
    by (simp add: process_def get_clusters_def)
next
  fix s s'
  assume "merge_round s = Inr s'"
  then show "Suc (length (queue s')) = length (queue s)" by (rule merge_round_length)
qed

section \<open>Order of the queue\<close>

text \<open>
  Claim C7 at the input \<open>[[0], [2], [3], [5], [7]]\<close> with \<open>k = 3\<close>, one representative
  and compression \<open>1/2\<close>: the queue is sorted by cached distance after construction,
  and after the first round the cached distances in queue order are
  \<open>2, 9/4, 2, 11/4\<close>, not sorted, while a further round is due.
\<close>

theorem queue_unsorted_after_round:
  "sorted (queue_distances (cure_init five_points 3 1 (1 / 2)))
   \<and> merge_round (cure_init five_points 3 1 (1 / 2)) = Inr (five_round1 3)
   \<and> queue_distances (five_round1 3) = [Fin 2, Fin (9 / 4), Fin 2, Fin (11 / 4)]
   \<and> \<not> sorted (queue_distances (five_round1 3))
   \<and> number_cluster (five_round1 3) < int (length (queue (five_round1 3)))"
  unfolding five_init five_round1 by (simp add: queue_distances_def)

section \<open>Selection of the representatives\<close>

lemma map_err_Inr:
  "map_err f xs = Inr ys \<Longrightarrow> length ys = length xs \<and> (\<forall>i<length xs. f (xs ! i) = Inr (ys ! i))"
proof (induction xs arbitrary: ys)
  case Nil
  then show ?case by simp
next
  case (Cons x xs)
  then obtain y ys' where y: "f x = Inr y" and r: "map_err f xs = Inr ys'" and e: "ys = y # ys'"
    by (auto split: sum.splits)
  from Cons.IH[OF r] y e show ?case
    by (auto simp: nth_Cons split: nat.splits)
qed

lemma select_step_first:
  "select_step pts m 0 [] = [maximal_point (\<lambda>p. euclidean_distance p m) pts]"
  by (simp add: select_step_def)

lemma select_step_later:
  "index \<noteq> 0 \<Longrightarrow>
   select_step pts m index (b # rest) =
     (if maximal_point (\<lambda>p. case b of Some q \<Rightarrow> euclidean_distance p q | None \<Rightarrow> 0) pts
           \<in> set (b # rest)
      then b # rest
      else (b # rest) @ [maximal_point (\<lambda>p. case b of Some q \<Rightarrow> euclidean_distance p q | None \<Rightarrow> 0) pts])"
proof -
  have "(\<lambda>point. case b # rest of [] \<Rightarrow> 0 | None # x \<Rightarrow> 0 | Some first # x \<Rightarrow> euclidean_distance point first)
        = (\<lambda>p. case b of Some q \<Rightarrow> euclidean_distance p q | None \<Rightarrow> 0)"
    by (auto split: option.splits)
  then show ?thesis if "index \<noteq> 0"
    using that by (simp add: select_step_def Let_def del: set_simps)
qed

lemma fold_select_step_later:
  assumes "0 \<notin> set indices"
  defines "second b pts \<equiv> maximal_point (\<lambda>p. case b of Some q \<Rightarrow> euclidean_distance p q | None \<Rightarrow> 0) pts"
  shows "fold (select_step pts m) indices [b, second b pts] = [b, second b pts]"
    and "fold (select_step pts m) indices [b] =
           (if indices = [] \<or> second b pts = b then [b] else [b, second b pts])"
  using assms(1)
proof (induction indices)
  case Nil
  {
    case 1 show ?case by simp
  next
    case 2 show ?case by simp
  }
next
  case (Cons i indices)
  {
    case 1
    then have i: "i \<noteq> 0" and r: "0 \<notin> set indices" by auto
    have "select_step pts m i [b, second b pts] = [b, second b pts]"
      using select_step_later[OF i, of pts m b "[second b pts]"] by (simp add: second_def)
    with Cons.IH(1)[OF r] show ?case by simp
  next
    case 2
    then have i: "i \<noteq> 0" and r: "0 \<notin> set indices" by auto
    have s: "select_step pts m i [b] = (if second b pts = b then [b] else [b, second b pts])"
      using select_step_later[OF i, of pts m b "[]"] by (simp add: second_def)
    show ?case
    proof (cases "second b pts = b")
      case True
      with s Cons.IH(2)[OF r] show ?thesis by simp
    next
      case False
      with s Cons.IH(1)[OF r] show ?thesis by simp
    qed
  }
qed

lemma select_temporary_eq:
  "select_temporary n pts m =
     (if n = 0 then []
      else let first = maximal_point (\<lambda>p. euclidean_distance p m) pts;
               second = maximal_point
                 (\<lambda>p. case first of Some q \<Rightarrow> euclidean_distance p q | None \<Rightarrow> 0) pts
           in if n = 1 \<or> second = first then [first] else [first, second])"
proof (cases n)
  case 0
  then show ?thesis by (simp add: select_temporary_def)
next
  case (Suc k)
  have u: "[0..<Suc k] = 0 # [1..<Suc k]"
    by (simp add: upt_rec)
  have z: "0 \<notin> set [1..<Suc k]" by simp
  have e: "[1..<Suc k] = [] \<longleftrightarrow> k = 0" by simp
  show ?thesis
    unfolding select_temporary_def Suc u
    using fold_select_step_later(2)[OF z, of pts m "maximal_point (\<lambda>p. euclidean_distance p m) pts"]
    by (simp add: select_step_first Let_def e del: upt_Suc)
qed

lemma select_temporary_length: "length (select_temporary n pts m) \<le> 2"
  by (simp add: select_temporary_eq Let_def)

lemma merge_clusters_rep:
  "merge_clusters r c a b = Inr mc \<Longrightarrow>
     \<exists>m. mean mc = Some m \<and>
         map_err (shrink_point c m) (select_temporary (nat r) (points mc) m) = Inr (rep mc)"
  by (auto simp: merge_clusters_def cure_cluster_empty_def split: option.splits sum.splits)


lemma last_maximum_single: "last_maximum f [x] x"
  unfolding last_maximum_def
  by (rule exI[of _ "[]"], rule exI[of _ "[]"]) simp

lemma last_maximum_snoc_new:
  assumes "last_maximum f pts q" "f q \<le> f x"
  shows "last_maximum f (pts @ [x]) x"
proof -
  from assms(1) obtain ys zs where d: "pts = ys @ q # zs"
    and l: "\<forall>y\<in>set ys. f y \<le> f q" and g: "\<forall>z\<in>set zs. f z < f q"
    unfolding last_maximum_def by blast
  have "\<forall>y\<in>set pts. f y \<le> f x"
  proof
    fix y assume "y \<in> set pts"
    then have "y \<in> set ys \<or> y = q \<or> y \<in> set zs" using d by auto
    then have "f y \<le> f q" using l g by (auto intro: less_imp_le)
    with assms(2) show "f y \<le> f x" by linarith
  qed
  then show ?thesis
    unfolding last_maximum_def
    by (intro exI[of _ pts] exI[of _ "[]"]) simp
qed

lemma last_maximum_snoc_old:
  assumes "last_maximum f pts q" "f x < f q"
  shows "last_maximum f (pts @ [x]) q"
proof -
  from assms(1) obtain ys zs where d: "pts = ys @ q # zs"
    and l: "\<forall>y\<in>set ys. f y \<le> f q" and g: "\<forall>z\<in>set zs. f z < f q"
    unfolding last_maximum_def by blast
  have 1: "pts @ [x] = ys @ q # (zs @ [x])" using d by simp
  have 2: "\<forall>z\<in>set (zs @ [x]). f z < f q" using g assms(2) by simp
  show ?thesis
    unfolding last_maximum_def
    using 1 2 l by (intro exI[of _ ys] exI[of _ "zs @ [x]"]) (intro conjI)
qed

lemma maximal_point_fold:
  assumes "\<forall>p\<in>set pts. 0 \<le> f p" "pts \<noteq> []"
  shows "\<exists>q. fold (\<lambda>point (maximal_distance, best).
                    if f point \<ge> maximal_distance then (f point, Some point)
                    else (maximal_distance, best)) pts (0, None) = (f q, Some q)
             \<and> last_maximum f pts q"
  using assms
proof (induction pts rule: rev_induct)
  case Nil
  then show ?case by simp
next
  case (snoc x pts)
  let ?step = "\<lambda>point (maximal_distance, best).
                    if f point \<ge> maximal_distance then (f point, Some point)
                    else (maximal_distance, best)"
  from snoc.prems have nn: "\<forall>p\<in>set pts. 0 \<le> f p" and x0: "0 \<le> f x" by simp_all
  have st: "fold ?step (pts @ [x]) (0, None) = ?step x (fold ?step pts (0, None))"
    by simp
  show ?case
  proof (cases "pts = []")
    case True
    have "fold ?step (pts @ [x]) (0, None) = (f x, Some x)"
      unfolding st using True x0 by simp
    moreover have "last_maximum f (pts @ [x]) x"
      using True last_maximum_single[of f x] by simp
    ultimately show ?thesis by (rule_tac x = x in exI) (rule conjI)
  next
    case False
    from snoc.IH[OF nn False] obtain q where
      v: "fold ?step pts (0, None) = (f q, Some q)" and lm: "last_maximum f pts q"
      by blast
    show ?thesis
    proof (cases "f q \<le> f x")
      case True
      have "fold ?step (pts @ [x]) (0, None) = (f x, Some x)"
        unfolding st v using True by simp
      moreover have "last_maximum f (pts @ [x]) x"
        using lm True by (rule last_maximum_snoc_new)
      ultimately show ?thesis by (rule_tac x = x in exI) (rule conjI)
    next
      case False
      have "fold ?step (pts @ [x]) (0, None) = (f q, Some q)"
        unfolding st v using False by simp
      moreover have "last_maximum f (pts @ [x]) q"
        using lm False by (intro last_maximum_snoc_old) simp_all
      ultimately show ?thesis by (rule_tac x = q in exI) (rule conjI)
    qed
  qed
qed

lemma maximal_point_last:
  assumes "\<forall>p\<in>set pts. 0 \<le> f p" "pts \<noteq> []"
  shows "\<exists>q. maximal_point f pts = Some q \<and> last_maximum f pts q"
proof -
  from maximal_point_fold[OF assms] obtain q where
    "fold (\<lambda>point (maximal_distance, best).
                    if f point \<ge> maximal_distance then (f point, Some point)
                    else (maximal_distance, best)) pts (0, None) = (f q, Some q)"
    and "last_maximum f pts q"
    by blast
  then have "maximal_point f pts = Some q \<and> last_maximum f pts q"
    unfolding maximal_point_def by simp
  then show ?thesis ..
qed

lemma maximal_point_Nil: "maximal_point f [] = None"
  by (simp add: maximal_point_def)

lemma euclidean_distance_nonneg: "0 \<le> euclidean_distance a b"
  unfolding euclidean_distance_def
  by (rule real_sqrt_ge_zero, rule sum_list_nonneg) auto

abbreviation pair_cluster :: cure_cluster where
  "pair_cluster \<equiv>
     \<lparr>points = [[0], [1]], mean = Some [1 / 2], rep = [[1], [0]],
      closest = None, distance = PInf, ditance = None\<rparr>"

abbreviation triple_cluster :: cure_cluster where
  "triple_cluster \<equiv>
     \<lparr>points = [[0], [1], [10]], mean = Some [11 / 3], rep = [[10], [0]],
      closest = None, distance = PInf, ditance = None\<rparr>"

lemmas merge_eval = merge_clusters_def merged_mean_at_def select_temporary_def select_step_def
  maximal_point_def shrink_point_def cure_cluster_empty_def cure_cluster_of_point_def
  euclidean_distance_1d upt_rec Let_def

lemma triple_merge_5:
  "merge_clusters 5 0 pair_cluster (cure_cluster_of_point [10]) = Inr triple_cluster"
  by (simp add: merge_eval)

lemma triple_select:
  "select_temporary 3 [[0], [1], [10]] [11 / 3] = [Some [10], Some [0]]"
  by (simp add: select_temporary_def select_step_def maximal_point_def euclidean_distance_1d
      upt_rec Let_def)

lemma triple_claimed:
  "claimed_select 3 [[0], [1], [10]] [11 / 3] = [[10], [0], [1]]"
  by (simp add: claimed_select_def numeral_3_eq_3 maximal_point_def euclidean_distance_1d)

text \<open>
  What the loop of lines 250 to 268 selects, for every input. The first candidate is the
  point farthest from the merged mean. Every later iteration looks for the point,
  selected or not, that is farthest from the candidate selected first, and appends it
  only when it is not selected yet; so the selection is the first candidate alone, or the
  first and the point farthest from it, whatever the number of iterations. In each search
  the point met last among the farthest wins.
\<close>

lemma select_temporary_from_first:
  "select_temporary n pts m =
     (if n = 0 then []
      else let first = maximal_point (\<lambda>p. euclidean_distance p m) pts;
               second = maximal_point
                 (\<lambda>p. case first of Some q \<Rightarrow> euclidean_distance p q | None \<Rightarrow> 0) pts
           in if n = 1 \<or> second = first then [first] else [first, second])
   \<and> (pts \<noteq> [] \<longrightarrow>
        (\<exists>q. maximal_point (\<lambda>p. euclidean_distance p x) pts = Some q
            \<and> last_maximum (\<lambda>p. euclidean_distance p x) pts q))
   \<and> (merge_clusters r c a b = Inr mc \<longrightarrow>
        (\<exists>m'. mean mc = Some m' \<and>
           map_err (shrink_point c m') (select_temporary (nat r) (points a @ points b) m')
             = Inr (rep mc)))"
proof (intro conjI impI)
  show "select_temporary n pts m =
     (if n = 0 then []
      else let first = maximal_point (\<lambda>p. euclidean_distance p m) pts;
               second = maximal_point
                 (\<lambda>p. case first of Some q \<Rightarrow> euclidean_distance p q | None \<Rightarrow> 0) pts
           in if n = 1 \<or> second = first then [first] else [first, second])"
    by (rule select_temporary_eq)
next
  assume "pts \<noteq> []"
  then show "\<exists>q. maximal_point (\<lambda>p. euclidean_distance p x) pts = Some q
            \<and> last_maximum (\<lambda>p. euclidean_distance p x) pts q"
    by (intro maximal_point_last) (simp_all add: euclidean_distance_nonneg)
next
  assume m: "merge_clusters r c a b = Inr mc"
  from merge_clusters_rep[OF m] merge_clusters_points[OF m]
  show "\<exists>m'. mean mc = Some m' \<and>
           map_err (shrink_point c m') (select_temporary (nat r) (points a @ points b) m')
             = Inr (rep mc)"
    by simp
qed

abbreviation three_points :: "point list" where
  "three_points \<equiv> [[0], [1], [10]]"

abbreviation three_init :: cure where
  "three_init \<equiv>
     \<lparr>pointer_data = three_points, number_cluster = 1, number_represent_points = 3,
      compression = 0,
      heap = [\<lparr>points = [[0]], mean = Some [0], rep = [[0]], closest = Some 1, distance = Fin 1, ditance = None\<rparr>,
              \<lparr>points = [[1]], mean = Some [1], rep = [[1]], closest = Some 0, distance = Fin 1, ditance = None\<rparr>,
              \<lparr>points = [[10]], mean = Some [10], rep = [[10]], closest = Some 1, distance = Fin 9, ditance = None\<rparr>],
      queue = [0, 1, 2],
      tree = [([0], 0), ([1], 1), ([10], 2)],
      clusters = None\<rparr>"

abbreviation three_round1 :: cure where
  "three_round1 \<equiv>
     \<lparr>pointer_data = three_points, number_cluster = 1, number_represent_points = 3,
      compression = 0,
      heap = [\<lparr>points = [[0]], mean = Some [0], rep = [[0]], closest = Some 1, distance = Fin 1, ditance = None\<rparr>,
              \<lparr>points = [[1]], mean = Some [1], rep = [[1]], closest = Some 0, distance = Fin 1, ditance = None\<rparr>,
              \<lparr>points = [[10]], mean = Some [10], rep = [[10]], closest = Some 3, distance = Fin 9, ditance = None\<rparr>,
              \<lparr>points = [[0], [1]], mean = Some [1 / 2], rep = [[1], [0]], closest = Some 2, distance = Fin 9, ditance = None\<rparr>],
      queue = [3, 2],
      tree = [([10], 2), ([1], 3), ([0], 3)],
      clusters = None\<rparr>"

abbreviation three_round2 :: cure where
  "three_round2 \<equiv>
     \<lparr>pointer_data = three_points, number_cluster = 1, number_represent_points = 3,
      compression = 0,
      heap = [\<lparr>points = [[0]], mean = Some [0], rep = [[0]], closest = Some 1, distance = Fin 1, ditance = None\<rparr>,
              \<lparr>points = [[1]], mean = Some [1], rep = [[1]], closest = Some 0, distance = Fin 1, ditance = None\<rparr>,
              \<lparr>points = [[10]], mean = Some [10], rep = [[10]], closest = Some 3, distance = Fin 9, ditance = None\<rparr>,
              \<lparr>points = [[0], [1]], mean = Some [1 / 2], rep = [[1], [0]], closest = Some 2, distance = Fin 9, ditance = None\<rparr>,
              \<lparr>points = [[0], [1], [10]], mean = Some [11 / 3], rep = [[10], [0]], closest = None, distance = PInf, ditance = None\<rparr>],
      queue = [4],
      tree = [([10], 4), ([0], 4)],
      clusters = None\<rparr>"

lemma three_init: "cure_init three_points 1 3 0 = three_init"
  by (simp add: init_eval euclidean_distance_1d)

lemma three_round1: "merge_round three_init = Inr three_round1"
  by (simp add: round_eval euclidean_distance_1d Let_def)

lemma three_round2: "merge_round three_round1 = Inr three_round2"
  by (simp add: round_eval euclidean_distance_1d Let_def)

lemma three_process_loop: "process_loop three_init 0 = Inr (three_round2, 2)"
proof -
  have "process_loop three_init 0 = process_loop three_round1 (Suc 0)"
    by (rule process_loop_step[OF _ three_round1]) simp
  also have "\<dots> = process_loop three_round2 (Suc (Suc 0))"
    by (rule process_loop_step[OF _ three_round2]) simp
  also have "\<dots> = Inr (three_round2, Suc (Suc 0))"
    by (rule process_loop_stop) simp
  finally show ?thesis by (simp add: numeral_2_eq_2)
qed

lemma three_process:
  "process (cure_init three_points 1 3 0)
   = Inr (three_round2\<lparr>clusters := Some [[[0], [1], [10]]]\<rparr>)"
  unfolding process_def three_init three_process_loop by simp

text \<open>
  Claim C5 at the input \<open>[[0], [1], [10]]\<close> with \<open>k = 1\<close>, three representatives asked
  for and no compression. The second round merges the cluster of \<open>[0]\<close> and \<open>[1]\<close> with
  the cluster of \<open>[10]\<close>. The loop selects \<open>[10]\<close>, then \<open>[0]\<close>, the point farthest from
  \<open>[10]\<close>; its third iteration measures from \<open>[10]\<close> again, finds \<open>[0]\<close> again and
  selects nothing, so the cluster that \<^verbatim>\<open>process\<close> leaves has the two representatives
  \<open>[10]\<close> and \<open>[0]\<close>. The claim has a third one, \<open>[1]\<close>, the point not yet selected that
  is farthest from \<open>[0]\<close>, the representative selected last.
\<close>

theorem selection_measures_from_first:
  "process (cure_init three_points 1 3 0)
     = Inr (three_round2\<lparr>clusters := Some [[[0], [1], [10]]]\<rparr>)
   \<and> merge_clusters 3 0 (heap three_round1 ! 3) (heap three_round1 ! 2)
       = Inr (heap three_round2 ! 4)
   \<and> points (heap three_round2 ! 4) = [[0], [1], [10]]
   \<and> mean (heap three_round2 ! 4) = Some [11 / 3]
   \<and> rep (heap three_round2 ! 4) = [[10], [0]]
   \<and> select_temporary 3 [[0], [1], [10]] [11 / 3] = [Some [10], Some [0]]
   \<and> claimed_select 3 [[0], [1], [10]] [11 / 3] = [[10], [0], [1]]"
proof -
  have "merge_clusters 3 0 (heap three_round1 ! 3) (heap three_round1 ! 2)
       = Inr (heap three_round2 ! 4)"
    by (simp add: merge_eval)
  with three_process triple_select triple_claimed show ?thesis by simp
qed

text \<open>
  Claim C6. Whatever the number of representatives asked for, a merged cluster has at most
  two representatives.
\<close>

theorem representatives_at_most_two:
  "merge_clusters r c a b = Inr mc \<Longrightarrow> length (rep mc) \<le> 2"
proof -
  assume m: "merge_clusters r c a b = Inr mc"
  from merge_clusters_rep[OF m] obtain m' where
    "map_err (shrink_point c m') (select_temporary (nat r) (points mc) m') = Inr (rep mc)"
    by blast
  from map_err_Inr[OF this] show ?thesis
    by (simp add: select_temporary_length)
qed

theorem representatives_at_most_two_witness:
  "merge_clusters 5 0 pair_cluster (cure_cluster_of_point [10]) = Inr triple_cluster
   \<and> length (rep triple_cluster) \<le> 2"
  using representatives_at_most_two[OF triple_merge_5] triple_merge_5 by simp

section \<open>The mean of a cluster\<close>
















section \<open>Construction\<close>










section \<open>Repair of the cached neighbour\<close>

subsection \<open>A cluster whose neighbour was merged away\<close>

abbreviation gap_points :: "point list" where
  "gap_points \<equiv> [[40], [50], [0], [- 41]]"

abbreviation gap_init :: cure where
  "gap_init \<equiv>
     \<lparr>pointer_data = gap_points, number_cluster = 3, number_represent_points = 5,
      compression = 1 / 2,
      heap = [\<lparr>points = [[40]], mean = Some [40], rep = [[40]], closest = Some 1, distance = Fin 10, ditance = None\<rparr>,
              \<lparr>points = [[50]], mean = Some [50], rep = [[50]], closest = Some 0, distance = Fin 10, ditance = None\<rparr>,
              \<lparr>points = [[0]], mean = Some [0], rep = [[0]], closest = Some 0, distance = Fin 40, ditance = None\<rparr>,
              \<lparr>points = [[- 41]], mean = Some [- 41], rep = [[- 41]], closest = Some 2, distance = Fin 41, ditance = None\<rparr>],
      queue = [0, 1, 2, 3],
      tree = [([40], 0), ([50], 1), ([0], 2), ([- 41], 3)],
      clusters = None\<rparr>"

abbreviation gap_merged :: cure_cluster where
  "gap_merged \<equiv>
     \<lparr>points = [[40], [50]], mean = Some [45], rep = [[95 / 2], [85 / 2]],
      closest = Some 2, distance = Fin (85 / 2), ditance = None\<rparr>"

abbreviation gap_round1 :: cure where
  "gap_round1 \<equiv>
     \<lparr>pointer_data = gap_points, number_cluster = 3, number_represent_points = 5,
      compression = 1 / 2,
      heap = [\<lparr>points = [[40]], mean = Some [40], rep = [[40]], closest = Some 1, distance = Fin 10, ditance = None\<rparr>,
              \<lparr>points = [[50]], mean = Some [50], rep = [[50]], closest = Some 0, distance = Fin 10, ditance = None\<rparr>,
              \<lparr>points = [[0]], mean = Some [0], rep = [[0]], closest = Some 3, distance = Fin 41, ditance = None\<rparr>,
              \<lparr>points = [[- 41]], mean = Some [- 41], rep = [[- 41]], closest = Some 2, distance = Fin 41, ditance = None\<rparr>,
              gap_merged],
      queue = [3, 2, 4],
      tree = [([0], 2), ([- 41], 3), ([95 / 2], 4), ([85 / 2], 4)],
      clusters = None\<rparr>"

lemma gap_init: "cure_init gap_points 3 5 (1 / 2) = gap_init"
  by (simp add: init_eval euclidean_distance_1d)

lemma gap_round1: "merge_round gap_init = Inr gap_round1"
  by (simp add: round_eval euclidean_distance_1d Let_def)

lemma gap_distance: "cluster_distance gap_merged (heap gap_init ! 2) = Fin (85 / 2)"
  by (simp add: cluster_distance_def euclidean_distance_1d)

lemma gap_claimed:
  "claimed_rederive (tree gap_round1) 4 2 (heap gap_init ! 2) (Fin (85 / 2))
   = (Some 4, Fin (85 / 2))"
  by (simp add: claimed_rederive_def closest_cluster_def find_nearest_dist_nodes_def
      euclidean_distance_1d Let_def)

lemma gap_found:
  "closest_cluster (tree gap_round1) 2 (heap gap_init ! 2) (Fin (85 / 2)) = (Some 3, Fin 41)"
  by (simp add: closest_cluster_def find_nearest_dist_nodes_def euclidean_distance_1d)

text \<open>
  Claim C4, as stated, at the input \<open>[[40], [50], [0], [-41]]\<close> with \<open>k = 3\<close>, five
  representatives and compression \<open>1/2\<close>. The clusters of \<open>[40]\<close> and \<open>[50]\<close> are merged.
  The cluster of \<open>[0]\<close> had the cluster of \<open>[40]\<close> as its neighbour, at the cached distance
  \<open>40\<close>, and is at distance \<open>85/2\<close> from the merged cluster. The code gives it the cluster
  of \<open>[-41]\<close> at distance \<open>41\<close>; a query with the cached distance \<open>40\<close> as its radius
  finds no other cluster and gives it the merged cluster at distance \<open>85/2\<close>.
\<close>

theorem rederive_radius_counter_example:
  "merge_round (cure_init gap_points 3 5 (1 / 2)) = Inr gap_round1
   \<and> closest (heap gap_init ! 2) = Some 0
   \<and> distance (heap gap_init ! 2) = Fin 40
   \<and> cluster_distance (heap gap_round1 ! 4) (heap gap_init ! 2) = Fin (85 / 2)
   \<and> closest (heap gap_round1 ! 2) = Some 3
   \<and> distance (heap gap_round1 ! 2) = Fin 41
   \<and> claimed_rederive (tree gap_round1) 4 2 (heap gap_init ! 2) (Fin (85 / 2))
       = (Some 4, Fin (85 / 2))"
  using gap_round1 gap_distance gap_claimed unfolding gap_init by simp

text \<open>
  Claim C4, amended. For a remaining cluster \<open>item\<close> whose cached neighbour is one of the
  two merged clusters and whose cached distance is less than its distance to the merged
  cluster \<open>m\<close>, the neighbour is looked up in the index from the representatives of
  \<open>item\<close> with the distance to the merged cluster as the radius; when the query finds no
  cluster other than \<open>item\<close>, the merged cluster is taken at that distance; and \<open>item\<close> is
  marked for relocation.
\<close>

theorem rederive_radius_is_distance_to_merged:
  assumes "item < length h" "item \<noteq> m"
    and "closest (h ! item) = Some c1 \<or> closest (h ! item) = Some c2"
    and "distance (h ! item) < cluster_distance (h ! m) (h ! item)"
  shows "closest (fst (repair_item t c1 c2 m item (h, requests)) ! item)
           = (case fst (closest_cluster t item (h ! item) (cluster_distance (h ! m) (h ! item))) of
                None \<Rightarrow> Some m | Some c \<Rightarrow> Some c)
       \<and> distance (fst (repair_item t c1 c2 m item (h, requests)) ! item)
           = (case fst (closest_cluster t item (h ! item) (cluster_distance (h ! m) (h ! item))) of
                None \<Rightarrow> cluster_distance (h ! m) (h ! item)
              | Some c \<Rightarrow> snd (closest_cluster t item (h ! item)
                                 (cluster_distance (h ! m) (h ! item))))
       \<and> snd (repair_item t c1 c2 m item (h, requests)) = requests @ [item]"
  using assms unfolding repair_item_def
  by (auto simp: Let_def nth_list_update_total split: option.splits)

theorem rederive_radius_is_distance_to_merged_witness:
  "(2 :: nat) < length (heap gap_init @ [gap_merged]) \<and> (2 :: nat) \<noteq> 4
   \<and> closest ((heap gap_init @ [gap_merged]) ! 2) = Some 0
   \<and> distance ((heap gap_init @ [gap_merged]) ! 2)
       < cluster_distance ((heap gap_init @ [gap_merged]) ! 4) ((heap gap_init @ [gap_merged]) ! 2)
   \<and> closest (fst (repair_item (tree gap_round1) 0 1 4 2 (heap gap_init @ [gap_merged], [])) ! 2)
       = Some 3
   \<and> distance (fst (repair_item (tree gap_round1) 0 1 4 2 (heap gap_init @ [gap_merged], [])) ! 2)
       = Fin 41
   \<and> snd (repair_item (tree gap_round1) 0 1 4 2 (heap gap_init @ [gap_merged], [])) = [2]"
proof -
  have 1: "(2 :: nat) < length (heap gap_init @ [gap_merged])" by simp
  have 2: "(2 :: nat) \<noteq> 4" by simp
  have 3: "closest ((heap gap_init @ [gap_merged]) ! 2) = Some 0
           \<or> closest ((heap gap_init @ [gap_merged]) ! 2) = Some 1" by simp
  have d: "cluster_distance ((heap gap_init @ [gap_merged]) ! 4) ((heap gap_init @ [gap_merged]) ! 2)
           = Fin (85 / 2)"
    by (simp add: cluster_distance_def euclidean_distance_1d)
  have 4: "distance ((heap gap_init @ [gap_merged]) ! 2)
       < cluster_distance ((heap gap_init @ [gap_merged]) ! 4) ((heap gap_init @ [gap_merged]) ! 2)"
    unfolding d by simp
  have f: "closest_cluster (tree gap_round1) 2 ((heap gap_init @ [gap_merged]) ! 2) (Fin (85 / 2))
           = (Some 3, Fin 41)"
    using gap_found by simp
  note t = rederive_radius_is_distance_to_merged[OF 1 2 3 4, of "tree gap_round1" "[]"]
  from t show ?thesis
    unfolding d f using 1 4 d by simp
qed

subsection \<open>A cluster whose neighbour remains\<close>

abbreviation plane_points :: "point list" where
  "plane_points \<equiv> [[0, 0], [10, 2], [4, 13], [5, 25]]"

abbreviation plane_init :: cure where
  "plane_init \<equiv>
     \<lparr>pointer_data = plane_points, number_cluster = 3, number_represent_points = 5,
      compression = 1 / 2,
      heap = [\<lparr>points = [[0, 0]], mean = Some [0, 0], rep = [[0, 0]], closest = Some 1, distance = Fin (sqrt 104), ditance = None\<rparr>,
              \<lparr>points = [[10, 2]], mean = Some [10, 2], rep = [[10, 2]], closest = Some 0, distance = Fin (sqrt 104), ditance = None\<rparr>,
              \<lparr>points = [[4, 13]], mean = Some [4, 13], rep = [[4, 13]], closest = Some 3, distance = Fin (sqrt 145), ditance = None\<rparr>,
              \<lparr>points = [[5, 25]], mean = Some [5, 25], rep = [[5, 25]], closest = Some 2, distance = Fin (sqrt 145), ditance = None\<rparr>],
      queue = [0, 1, 2, 3],
      tree = [([0, 0], 0), ([10, 2], 1), ([4, 13], 2), ([5, 25], 3)],
      clusters = None\<rparr>"

abbreviation plane_round1 :: cure where
  "plane_round1 \<equiv>
     \<lparr>pointer_data = plane_points, number_cluster = 3, number_represent_points = 5,
      compression = 1 / 2,
      heap = [\<lparr>points = [[0, 0]], mean = Some [0, 0], rep = [[0, 0]], closest = Some 1, distance = Fin (sqrt 104), ditance = None\<rparr>,
              \<lparr>points = [[10, 2]], mean = Some [10, 2], rep = [[10, 2]], closest = Some 0, distance = Fin (sqrt 104), ditance = None\<rparr>,
              \<lparr>points = [[4, 13]], mean = Some [4, 13], rep = [[4, 13]], closest = Some 4, distance = Fin (sqrt 145), ditance = Some (Fin (sqrt (289 / 2)))\<rparr>,
              \<lparr>points = [[5, 25]], mean = Some [5, 25], rep = [[5, 25]], closest = Some 2, distance = Fin (sqrt 145), ditance = None\<rparr>,
              \<lparr>points = [[0, 0], [10, 2]], mean = Some [5, 1], rep = [[15 / 2, 3 / 2], [5 / 2, 1 / 2]], closest = Some 2, distance = Fin (sqrt (289 / 2)), ditance = None\<rparr>],
      queue = [4, 3, 2],
      tree = [([4, 13], 2), ([5, 25], 3), ([15 / 2, 3 / 2], 4), ([5 / 2, 1 / 2], 4)],
      clusters = None\<rparr>"

lemma plane_init: "cure_init plane_points 3 5 (1 / 2) = plane_init"
  by (simp add: init_eval euclidean_distance_2d)


lemma plane_round1: "merge_round plane_init = Inr plane_round1"
  by (simp add: round_eval euclidean_distance_2d Let_def)

lemma plane_distance:
  "cluster_distance (heap plane_round1 ! 4) (heap plane_init ! 2) = Fin (sqrt (289 / 2))"
  by (simp add: cluster_distance_def euclidean_distance_2d)

lemma repair_item_neighbour_remains:
  assumes "item < length h" "item \<noteq> m"
    and "closest (h ! item) \<noteq> Some c1" "closest (h ! item) \<noteq> Some c2"
    and "cluster_distance (h ! m) (h ! item) < distance (h ! item)"
  shows "closest (fst (repair_item t c1 c2 m item (h, requests)) ! item) = Some m"
    and "distance (fst (repair_item t c1 c2 m item (h, requests)) ! item) = distance (h ! item)"
    and "ditance (fst (repair_item t c1 c2 m item (h, requests)) ! item)
           = Some (cluster_distance (h ! m) (h ! item))"
    and "snd (repair_item t c1 c2 m item (h, requests)) = requests @ [item]"
  using assms unfolding repair_item_def
  by (auto simp: Let_def nth_list_update_total)

text \<open>
  Claim C3 at the input \<open>[[0, 0], [10, 2], [4, 13], [5, 25]]\<close> with \<open>k = 3\<close>, five
  representatives and compression \<open>1/2\<close>. The clusters of \<open>[0, 0]\<close> and \<open>[10, 2]\<close> are
  merged. The cluster of \<open>[4, 13]\<close> has the cluster of \<open>[5, 25]\<close> as its neighbour, at the
  cached distance \<open>sqrt 145\<close>, and the merged cluster is nearer, at \<open>sqrt (289/2)\<close>. After
  the round its neighbour is the merged cluster, its cached distance is still
  \<open>sqrt 145\<close>, and the new distance is in the attribute \<^verbatim>\<open>ditance\<close> that line 150
  creates.
\<close>

theorem cached_distance_not_updated:
  "merge_round (cure_init plane_points 3 5 (1 / 2)) = Inr plane_round1
   \<and> closest (heap plane_init ! 2) = Some 3
   \<and> distance (heap plane_init ! 2) = Fin (sqrt 145)
   \<and> cluster_distance (heap plane_round1 ! 4) (heap plane_init ! 2) = Fin (sqrt (289 / 2))
   \<and> Fin (sqrt (289 / 2)) < distance (heap plane_init ! 2)
   \<and> closest (heap plane_round1 ! 2) = Some 4
   \<and> distance (heap plane_round1 ! 2) = Fin (sqrt 145)
   \<and> distance (heap plane_round1 ! 2) \<noteq> Fin (sqrt (289 / 2))
   \<and> ditance (heap plane_round1 ! 2) = Some (Fin (sqrt (289 / 2)))
   \<and> queue plane_round1 = [4, 3, 2]"
  using plane_round1 plane_distance unfolding plane_init by simp

end
